theory Spec2Isabelle
  imports Complex_Main
begin

section \<open>Python exceptions as values\<close>

text \<open>
  Every \<^verbatim>\<open>raise\<close> of the service is a left injection. The message of an exception is
  what \<^verbatim>\<open>str(e)\<close> returns; the wording that pydantic and scikit-learn generate is
  abbreviated to the location of the failure.
\<close>

datatype exn = ValidationError string | ValueError string | IndexError string

fun str_exn :: "exn \<Rightarrow> string" where
  "str_exn (ValidationError m) = m"
| "str_exn (ValueError m) = m"
| "str_exn (IndexError m) = m"

definition and_then :: "exn + 'a \<Rightarrow> ('a \<Rightarrow> exn + 'b) \<Rightarrow> exn + 'b" where
  "and_then r f = (case r of Inl e \<Rightarrow> Inl e | Inr x \<Rightarrow> f x)"

text \<open>A list comprehension whose element expression may raise: the first raise ends it.\<close>

fun comprehension :: "('a \<Rightarrow> exn + 'b) \<Rightarrow> 'a list \<Rightarrow> exn + 'b list" where
  "comprehension f [] = Inr []"
| "comprehension f (x # xs) =
     and_then (f x) (\<lambda>y. and_then (comprehension f xs) (\<lambda>ys. Inr (y # ys)))"

section \<open>The pydantic models of src/models/input\_model.py\<close>

text \<open>
  A request dictionary as pydantic reads it: each field holds the number read for its
  key, and \<open>None\<close> where the key is missing or its value is not a number of the
  declared type. Floats are modelled as reals: the bounds are plain comparisons.
\<close>

record raw_input =
  raw_gre_score :: "real option"
  raw_toefl_score :: "real option"
  raw_university_rating :: "real option"
  raw_sop :: "real option"
  raw_lor :: "real option"
  raw_cgpa :: "real option"
  raw_research :: "int option"

record AdmissionInput =
  gre_score :: real
  toefl_score :: real
  university_rating :: real
  sop :: real
  lor :: real
  cgpa :: real
  research :: int

text \<open>\<^verbatim>\<open>Field(..., ge=lo, le=hi)\<close>: the field is required and bounded on both sides.\<close>

definition Field :: "string \<Rightarrow> 'a::linorder \<Rightarrow> 'a \<Rightarrow> 'a option \<Rightarrow> exn + 'a" where
  "Field name ge le v =
     (case v of
        None \<Rightarrow> Inl (ValidationError name)
      | Some x \<Rightarrow> if ge \<le> x \<and> x \<le> le then Inr x else Inl (ValidationError name))"

definition AdmissionInput_init :: "raw_input \<Rightarrow> exn + AdmissionInput" where
  "AdmissionInput_init inp =
     and_then (Field ''gre_score'' 0 340 (raw_gre_score inp)) (\<lambda>g.
     and_then (Field ''toefl_score'' 0 120 (raw_toefl_score inp)) (\<lambda>t.
     and_then (Field ''university_rating'' 1 5 (raw_university_rating inp)) (\<lambda>u.
     and_then (Field ''sop'' 1 5 (raw_sop inp)) (\<lambda>s.
     and_then (Field ''lor'' 1 5 (raw_lor inp)) (\<lambda>l.
     and_then (Field ''cgpa'' 0 10 (raw_cgpa inp)) (\<lambda>c.
     and_then (Field ''research'' 0 1 (raw_research inp)) (\<lambda>r.
       Inr \<lparr>gre_score = g, toefl_score = t, university_rating = u, sop = s,
            lor = l, cgpa = c, research = r\<rparr>)))))))"

record BatchAdmissionInput =
  batch_inputs :: "AdmissionInput list"

text \<open>
  \<^verbatim>\<open>validate_batch_size\<close> raises \<^verbatim>\<open>ValueError\<close>, which pydantic reports as a
  validation error of the model.
\<close>

definition validate_batch_size :: "AdmissionInput list \<Rightarrow> exn + AdmissionInput list" where
  "validate_batch_size v =
     (if length v > 1000 then Inl (ValueError ''Batch size cannot exceed 1000 records'')
      else Inr v)"

definition BatchAdmissionInput_init :: "AdmissionInput list \<Rightarrow> exn + BatchAdmissionInput" where
  "BatchAdmissionInput_init inputs =
     (if length inputs < 1 then Inl (ValidationError ''inputs'')
      else (case validate_batch_size inputs of
              Inl e \<Rightarrow> Inl (ValidationError (str_exn e))
            | Inr v \<Rightarrow> Inr \<lparr>batch_inputs = v\<rparr>))"

record AdmissionOutput =
  chance_of_admit :: real

definition AdmissionOutput_init :: "real \<Rightarrow> exn + AdmissionOutput" where
  "AdmissionOutput_init c =
     and_then (Field ''chance_of_admit'' 0 1 (Some c)) (\<lambda>x. Inr \<lparr>chance_of_admit = x\<rparr>)"

definition model_dump :: "AdmissionOutput \<Rightarrow> (string \<times> real) list" where
  "model_dump r = [(''chance_of_admit'', chance_of_admit r)]"

section \<open>The predictor: the model saved by src/train\_model.py\<close>

text \<open>
  \<^verbatim>\<open>train_model\<close> fits and saves a scikit-learn \<^verbatim>\<open>LinearRegression\<close>; the service loads
  it twice. Its \<^verbatim>\<open>predict\<close> takes a matrix with one row per sample, refuses a matrix
  with no sample or with a number of columns other than the one it was fitted on, and
  returns one value per row, the row's inner product with the coefficients plus the
  intercept. Floating-point rounding is not modelled.
\<close>

record LinearRegression =
  coef :: "real list"
  intercept :: real

definition dot :: "real list \<Rightarrow> real list \<Rightarrow> real" where
  "dot xs ys = sum_list (map2 (*) xs ys)"

definition sk_predict :: "LinearRegression \<Rightarrow> real list list \<Rightarrow> exn + real list" where
  "sk_predict m X =
     (if X = [] then Inl (ValueError ''Expected 2D array'')
      else if list_ex (\<lambda>row. length row \<noteq> length (coef m)) X
        then Inl (ValueError ''X has a different number of features'')
      else Inr (map (\<lambda>row. dot row (coef m) + intercept m) X))"

record AdmissionService =
  single_model :: LinearRegression
  batch_model :: LinearRegression

section \<open>HTTP responses\<close>

datatype body =
    ErrorBody string
  | DetailBody string
  | FailedDetail string string string
  | StatusBody string string
  | ResultsBody string string "(string \<times> real) list list" nat
  | MessageBody string string string
  | PredictionBody real
  | TokenBody string

datatype response = Response nat body

fun status_code :: "response \<Rightarrow> nat" where
  "status_code (Response c b) = c"

datatype HTTPException = HTTPException nat body

text \<open>What FastAPI sends for a handler: an exception becomes its status and detail.\<close>

fun fastapi_response :: "HTTPException + response \<Rightarrow> response" where
  "fastapi_response (Inl (HTTPException c d)) = Response c d"
| "fastapi_response (Inr r) = r"

section \<open>The job store and batch submission (src/service\_batch.py)\<close>

record Job =
  status :: string
  results :: "AdmissionOutput list"
  created_at :: real
  inputs :: "AdmissionInput list"
  error :: "string option"
  completed_at :: "real option"

type_synonym job_store = "string \<rightharpoonup> Job"

text \<open>
  \<^verbatim>\<open>batch_submit\<close> returns its response, the store, and the argument list of the thread
  it starts (\<open>None\<close> when it starts none). \<open>job_id\<close> is what \<^verbatim>\<open>uuid.uuid4()\<close> yields
  when it is called and \<open>now\<close> what \<^verbatim>\<open>time.time()\<close> yields.
\<close>

definition batch_submit ::
  "job_store \<Rightarrow> string \<Rightarrow> real \<Rightarrow> raw_input list
     \<Rightarrow> response \<times> job_store \<times> AdmissionInput list option" where
  "batch_submit jobs job_id now inps =
     (case and_then (comprehension AdmissionInput_init inps) BatchAdmissionInput_init of
        Inl e \<Rightarrow> (Response 400 (ErrorBody (str_exn e)), jobs, None)
      | Inr batch_input \<Rightarrow>
          (Response 200 (MessageBody job_id ''pending'' ''Batch job submitted successfully''),
           jobs(job_id \<mapsto> \<lparr>status = ''pending'', results = [], created_at = now,
                             inputs = batch_inputs batch_input, error = None,
                             completed_at = None\<rparr>),
           Some (batch_inputs batch_input)))"

text \<open>The documented bounds, as the specification words them, on a request dictionary.\<close>

definition in_range :: "'a::linorder \<Rightarrow> 'a \<Rightarrow> 'a option \<Rightarrow> bool" where
  "in_range lo hi v = (case v of None \<Rightarrow> False | Some x \<Rightarrow> lo \<le> x \<and> x \<le> hi)"

definition within_bounds :: "raw_input \<Rightarrow> bool" where
  "within_bounds inp =
     (in_range 0 340 (raw_gre_score inp) \<and> in_range 0 120 (raw_toefl_score inp)
      \<and> in_range 1 5 (raw_university_rating inp) \<and> in_range 1 5 (raw_sop inp)
      \<and> in_range 1 5 (raw_lor inp) \<and> in_range 0 10 (raw_cgpa inp)
      \<and> (case raw_research inp of None \<Rightarrow> False | Some r \<Rightarrow> r = 0 \<or> r = 1))"

definition sample_input :: raw_input where
  "sample_input =
     \<lparr>raw_gre_score = Some 337, raw_toefl_score = Some 118, raw_university_rating = Some 4,
      raw_sop = Some 4.5, raw_lor = Some 4.5, raw_cgpa = Some 9.65, raw_research = Some 1\<rparr>"

subsection \<open>The background thread\<close>

text \<open>One row of the feature matrix that \<^verbatim>\<open>process_batch_job\<close> builds.\<close>

definition features_of :: "AdmissionInput \<Rightarrow> real list" where
  "features_of inp =
     [gre_score inp, toefl_score inp, university_rating inp, sop inp, lor inp, cgpa inp,
      of_int (research inp)]"

text \<open>
  \<^verbatim>\<open>process_batch_job\<close> holds the lock twice, and other requests and threads run in
  between: \<open>process_start\<close> is its first locked block, \<open>process_finish\<close> the rest of the
  function (the prediction, then the locked block of the \<^verbatim>\<open>try\<close> or of the
  \<^verbatim>\<open>except\<close>). A job identifier that is not in the store raises \<^verbatim>\<open>KeyError\<close> in the
  handler too: the thread dies and the store is as it was.
\<close>

definition process_start :: "job_store \<Rightarrow> string \<Rightarrow> job_store" where
  "process_start jobs job_id =
     (case jobs job_id of
        None \<Rightarrow> jobs
      | Some job \<Rightarrow> jobs(job_id \<mapsto> job\<lparr>status := ''processing''\<rparr>))"

definition compute_results :: "AdmissionService \<Rightarrow> AdmissionInput list \<Rightarrow> exn + AdmissionOutput list" where
  "compute_results self inps =
     and_then (sk_predict (batch_model self) (map features_of inps))
       (comprehension AdmissionOutput_init)"

definition process_finish ::
  "AdmissionService \<Rightarrow> job_store \<Rightarrow> string \<Rightarrow> AdmissionInput list \<Rightarrow> real \<Rightarrow> job_store" where
  "process_finish self jobs job_id inps now =
     (case jobs job_id of
        None \<Rightarrow> jobs
      | Some job \<Rightarrow>
          (case compute_results self inps of
             Inr res \<Rightarrow>
               jobs(job_id \<mapsto> job\<lparr>status := ''completed'', results := res,
                                    completed_at := Some now\<rparr>)
           | Inl e \<Rightarrow>
               jobs(job_id \<mapsto> job\<lparr>status := ''failed'', error := Some (str_exn e),
                                    completed_at := Some now\<rparr>)))"

definition process_batch_job ::
  "AdmissionService \<Rightarrow> job_store \<Rightarrow> string \<Rightarrow> AdmissionInput list \<Rightarrow> real \<Rightarrow> job_store" where
  "process_batch_job self jobs job_id inps now =
     process_finish self (process_start jobs job_id) job_id inps now"

subsection \<open>The single prediction\<close>

definition predict ::
  "AdmissionService \<Rightarrow> real \<Rightarrow> real \<Rightarrow> real \<Rightarrow> real \<Rightarrow> real \<Rightarrow> real \<Rightarrow> int \<Rightarrow> exn + response" where
  "predict self g t u s l c r =
     and_then (sk_predict (single_model self) [[g, t, u, s, l, c, of_int r]])
       (\<lambda>prediction.
          case prediction of
            [] \<Rightarrow> Inl (IndexError ''prediction[0]'')
          | p # _ \<Rightarrow> Inr (Response 200 (PredictionBody p)))"

section \<open>Token verification (src/auth/jwt\_auth.py)\<close>

record config =
  JWT_SECRET :: string
  JWT_ALGORITHM :: string
  JWT_EXPIRATION :: int
  API_USERNAME :: string
  API_PASSWORD :: string

text \<open>The values \<^verbatim>\<open>os.getenv\<close> falls back to when the environment sets none.\<close>

definition default_config :: config where
  "default_config =
     \<lparr>JWT_SECRET = ''default_secret'', JWT_ALGORITHM = ''HS256'', JWT_EXPIRATION = 30,
      API_USERNAME = ''admin'', API_PASSWORD = ''secret123''\<rparr>"

text \<open>
  PyJWT is not part of the repository. Its \<^verbatim>\<open>decode\<close> is modelled symbolically: the wire
  format is a function that reads a token string as the algorithm and key it was signed
  with and the claims it carries (\<open>None\<close> for a string that is no token), and the clock
  is a number of seconds. A token whose algorithm is not allowed or whose key is not the
  verifier's raises \<^verbatim>\<open>InvalidTokenError\<close> (or a subclass other than the expiry one); a
  well-signed token whose \<^verbatim>\<open>exp\<close> is not in the future raises
  \<^verbatim>\<open>ExpiredSignatureError\<close>.
\<close>

datatype jwt_exn = ExpiredSignatureError | InvalidTokenError

record payload =
  sub :: string
  exp :: int
  iat :: int

record signed_jwt =
  alg :: string
  signing_key :: string
  claims :: payload

record jwt_env =
  wire :: "string \<Rightarrow> signed_jwt option"
  clock :: int

definition jwt_decode :: "jwt_env \<Rightarrow> string \<Rightarrow> string \<Rightarrow> string list \<Rightarrow> jwt_exn + payload" where
  "jwt_decode env token key algorithms =
     (case wire env token of
        None \<Rightarrow> Inl InvalidTokenError
      | Some j \<Rightarrow>
          if alg j \<notin> set algorithms then Inl InvalidTokenError
          else if signing_key j \<noteq> key then Inl InvalidTokenError
          else if exp (claims j) \<le> clock env then Inl ExpiredSignatureError
          else Inr (claims j))"

definition verify_token :: "jwt_env \<Rightarrow> config \<Rightarrow> string \<Rightarrow> jwt_exn + payload" where
  "verify_token env cfg token = jwt_decode env token (JWT_SECRET cfg) [JWT_ALGORITHM cfg]"

definition validate_credentials :: "config \<Rightarrow> string \<Rightarrow> string \<Rightarrow> bool" where
  "validate_credentials cfg username password =
     (username = API_USERNAME cfg \<and> password = API_PASSWORD cfg)"

subsection \<open>The middleware\<close>

definition PUBLIC_PATHS :: "string list" where
  "PUBLIC_PATHS =
     [''/login'', ''/healthz'', ''/docs'', ''/openapi.json'', ''/metrics'', ''/readyz'',
      ''/livez'']"

definition startswith :: "string \<Rightarrow> string \<Rightarrow> bool" where
  "startswith s p = (take (length p) s = p)"

text \<open>\<^verbatim>\<open>s.split(c)\<close> for a one-character separator: empty pieces are kept.\<close>

fun str_split :: "char \<Rightarrow> string \<Rightarrow> string list" where
  "str_split c [] = [[]]"
| "str_split c (x # xs) =
     (if x = c then [] # str_split c xs
      else (case str_split c xs of
              [] \<Rightarrow> [[x]]
            | w # ws \<Rightarrow> (x # w) # ws))"

record request =
  path :: string
  authorization :: "string option"

definition dispatch :: "jwt_env \<Rightarrow> config \<Rightarrow> request \<Rightarrow> (request \<Rightarrow> response) \<Rightarrow> response" where
  "dispatch env cfg req call_next =
     (if list_ex (startswith (path req)) PUBLIC_PATHS then call_next req
      else
        (case authorization req of
           None \<Rightarrow> Response 401 (ErrorBody ''Missing or invalid token'')
         | Some auth_header \<Rightarrow>
             if auth_header = [] \<or> \<not> startswith auth_header ''Bearer ''
               then Response 401 (ErrorBody ''Missing or invalid token'')
             else
               (case str_split CHR '' '' auth_header of
                  _ # token # _ \<Rightarrow>
                    (case verify_token env cfg token of
                       Inl ExpiredSignatureError \<Rightarrow> Response 401 (ErrorBody ''Token expired'')
                     | Inl InvalidTokenError \<Rightarrow> Response 401 (ErrorBody ''Invalid token'')
                     | Inr _ \<Rightarrow> call_next req)
                | _ \<Rightarrow> Response 500 (ErrorBody ''IndexError''))))"

subsection \<open>The GET endpoints and their dependency\<close>

definition get_current_user :: "jwt_env \<Rightarrow> config \<Rightarrow> string \<Rightarrow> HTTPException + payload" where
  "get_current_user env cfg credentials =
     (case verify_token env cfg credentials of
        Inr payload \<Rightarrow> Inr payload
      | Inl e \<Rightarrow> Inl (HTTPException 401 (DetailBody ''Invalid or expired token'')))"

definition batch_status_get :: "job_store \<Rightarrow> string \<Rightarrow> payload \<Rightarrow> HTTPException + response" where
  "batch_status_get jobs job_id current_user =
     (case jobs job_id of
        None \<Rightarrow> Inl (HTTPException 404 (DetailBody ''Job not found''))
      | Some job \<Rightarrow> Inr (Response 200 (StatusBody job_id (status job))))"

definition batch_results_get :: "job_store \<Rightarrow> string \<Rightarrow> payload \<Rightarrow> HTTPException + response" where
  "batch_results_get jobs job_id current_user =
     (case jobs job_id of
        None \<Rightarrow> Inl (HTTPException 404 (DetailBody ''Job not found''))
      | Some job \<Rightarrow>
          if status job = ''completed''
            then Inr (Response 200
                   (ResultsBody job_id (status job) (map model_dump (results job))
                      (length (results job))))
          else if status job \<in> set [''pending'', ''processing'']
            then Inr (Response 202 (MessageBody job_id (status job) ''Job is still processing''))
          else if status job = ''failed''
            then Inl (HTTPException 500
                   (FailedDetail job_id (status job)
                      (case error job of None \<Rightarrow> ''Unknown error'' | Some m \<Rightarrow> m)))
          else Inl (HTTPException 500 (DetailBody (''Unknown status: '' @ status job))))"

text \<open>
  \<^verbatim>\<open>Depends(get_current_user)\<close>: FastAPI runs the dependency first, and the handler only
  when it returned. \<open>credentials\<close> is the token that \<^verbatim>\<open>HTTPBearer\<close> hands over.
\<close>

definition Depends ::
  "(string \<Rightarrow> HTTPException + payload) \<Rightarrow> string \<Rightarrow> (payload \<Rightarrow> HTTPException + response)
     \<Rightarrow> response" where
  "Depends dependency credentials handler =
     fastapi_response
       (case dependency credentials of
          Inl e \<Rightarrow> Inl e
        | Inr current_user \<Rightarrow> handler current_user)"

definition get_batch_status :: "jwt_env \<Rightarrow> config \<Rightarrow> job_store \<Rightarrow> string \<Rightarrow> string \<Rightarrow> response" where
  "get_batch_status env cfg jobs job_id credentials =
     Depends (get_current_user env cfg) credentials (batch_status_get jobs job_id)"

definition get_batch_results :: "jwt_env \<Rightarrow> config \<Rightarrow> job_store \<Rightarrow> string \<Rightarrow> string \<Rightarrow> response" where
  "get_batch_results env cfg jobs job_id credentials =
     Depends (get_current_user env cfg) credentials (batch_results_get jobs job_id)"

section \<open>The service as a transition system\<close>

text \<open>
  The store is shared by the request handlers and by one background thread per job, and
  every access is under the one lock, so a run of the service is a sequence of locked
  blocks. A thread is where its \<^verbatim>\<open>process_batch_job\<close> stands: started but not yet in
  its first block, between its two blocks, or returned; it carries the input list it was
  started with. The GET endpoints read the store and leave it as it is.
\<close>

datatype thread = Spawned "AdmissionInput list" | Running "AdmissionInput list" | Finished

record system =
  jobs :: job_store
  threads :: "string \<rightharpoonup> thread"

datatype event =
    Submit string real "raw_input list"
  | Start string
  | Finish string real

definition init :: system where
  "init = \<lparr>jobs = Map.empty, threads = Map.empty\<rparr>"

text \<open>
  \<^verbatim>\<open>uuid.uuid4()\<close> is taken never to return an identifier that is in the store: such a
  \<open>Submit\<close> does not happen. \<open>Start\<close> and \<open>Finish\<close> happen only for a thread that stands
  before the block.
\<close>

definition step :: "AdmissionService \<Rightarrow> system \<Rightarrow> event \<Rightarrow> system" where
  "step self s ev =
     (case ev of
        Submit job_id now inps \<Rightarrow>
          (case jobs s job_id of
             Some _ \<Rightarrow> s
           | None \<Rightarrow>
               (case batch_submit (jobs s) job_id now inps of
                  (_, jobs', None) \<Rightarrow> s\<lparr>jobs := jobs'\<rparr>
                | (_, jobs', Some args) \<Rightarrow>
                    \<lparr>jobs = jobs', threads = (threads s)(job_id \<mapsto> Spawned args)\<rparr>))
      | Start job_id \<Rightarrow>
          (case threads s job_id of
             Some (Spawned args) \<Rightarrow>
               \<lparr>jobs = process_start (jobs s) job_id,
                threads = (threads s)(job_id \<mapsto> Running args)\<rparr>
           | _ \<Rightarrow> s)
      | Finish job_id now \<Rightarrow>
          (case threads s job_id of
             Some (Running args) \<Rightarrow>
               \<lparr>jobs = process_finish self (jobs s) job_id args now,
                threads = (threads s)(job_id \<mapsto> Finished)\<rparr>
           | _ \<Rightarrow> s))"

definition run :: "AdmissionService \<Rightarrow> system \<Rightarrow> event list \<Rightarrow> system" where
  "run self s evs = foldl (step self) s evs"

text \<open>The order of the specification on the statuses.\<close>

definition status_rank :: "string \<Rightarrow> nat" where
  "status_rank st = (if st = ''pending'' then 0 else if st = ''processing'' then 1 else 2)"

definition terminal :: "string \<Rightarrow> bool" where
  "terminal st = (st = ''completed'' \<or> st = ''failed'')"

text \<open>A batch the specification admits: 1 to 1000 inputs, each within the bounds.\<close>

definition valid_batch :: "raw_input list \<Rightarrow> bool" where
  "valid_batch inps = (1 \<le> length inps \<and> length inps \<le> 1000 \<and> list_all within_bounds inps)"

text \<open>
  What holds of a job and its thread together, at every point of a run: the status tells
  where the thread stands, the results and the error are those of the prediction over the
  stored inputs.
\<close>

fun job_ok :: "AdmissionService \<Rightarrow> Job option \<Rightarrow> thread option \<Rightarrow> bool" where
  "job_ok self None None = True"
| "job_ok self (Some j) (Some (Spawned args)) =
     (status j = ''pending'' \<and> results j = [] \<and> error j = None \<and> inputs j = args)"
| "job_ok self (Some j) (Some (Running args)) =
     (status j = ''processing'' \<and> results j = [] \<and> error j = None \<and> inputs j = args)"
| "job_ok self (Some j) (Some Finished) =
     (case compute_results self (inputs j) of
        Inr res \<Rightarrow> status j = ''completed'' \<and> results j = res \<and> error j = None
      | Inl e \<Rightarrow> status j = ''failed'' \<and> results j = [] \<and> error j = Some (str_exn e))"
| "job_ok self _ _ = False"

definition store_inv :: "AdmissionService \<Rightarrow> system \<Rightarrow> bool" where
  "store_inv self s = (\<forall>k. job_ok self (jobs s k) (threads s k))"

subsection \<open>A concrete service\<close>

text \<open>
  A regression with coefficients of the size a fit of the admission data gives, the sample
  input of the tests, and the input with every field at its upper bound.
\<close>

definition demo_model :: LinearRegression where
  "demo_model =
     \<lparr>coef = [0.0019, 0.0028, 0.0059, 0.0016, 0.0169, 0.1184, 0.0243], intercept = - 1.2757\<rparr>"

definition demo_service :: AdmissionService where
  "demo_service = \<lparr>single_model = demo_model, batch_model = demo_model\<rparr>"

definition top_input :: raw_input where
  "top_input =
     \<lparr>raw_gre_score = Some 340, raw_toefl_score = Some 120, raw_university_rating = Some 5,
      raw_sop = Some 5, raw_lor = Some 5, raw_cgpa = Some 10, raw_research = Some 1\<rparr>"

definition sample_admission :: AdmissionInput where
  "sample_admission =
     \<lparr>gre_score = 337, toefl_score = 118, university_rating = 4, sop = 4.5, lor = 4.5,
      cgpa = 9.65, research = 1\<rparr>"

definition top_admission :: AdmissionInput where
  "top_admission =
     \<lparr>gre_score = 340, toefl_score = 120, university_rating = 5, sop = 5, lor = 5,
      cgpa = 10, research = 1\<rparr>"

text \<open>An input of tests/test\_api.py with its GRE score raised to 500, above the documented 340.\<close>

definition out_of_bounds_input :: raw_input where
  "out_of_bounds_input =
     \<lparr>raw_gre_score = Some 500, raw_toefl_score = Some 110, raw_university_rating = Some 3,
      raw_sop = Some 3.5, raw_lor = Some 3, raw_cgpa = Some 8.5, raw_research = Some 1\<rparr>"

subsection \<open>Concrete tokens\<close>

text \<open>The token that the middleware takes from a header that starts with \<^verbatim>\<open>Bearer \<close>.\<close>

definition bearer_token :: "string \<Rightarrow> string" where
  "bearer_token h = takeWhile (\<lambda>x. x \<noteq> CHR '' '') (drop 7 h)"

definition demo_jwt :: "string \<Rightarrow> string \<Rightarrow> int \<Rightarrow> signed_jwt" where
  "demo_jwt key subject expiry =
     \<lparr>alg = ''HS256'', signing_key = key, claims = \<lparr>sub = subject, exp = expiry, iat = 200\<rparr>\<rparr>"

text \<open>
  Four tokens on the wire: one of the configured user, one that differs from it in the
  subject only, an expired one, and one signed with another key. The clock stands at 1000.
\<close>

definition demo_wire :: "string \<Rightarrow> signed_jwt option" where
  "demo_wire token =
     (if token = ''tok-admin'' then Some (demo_jwt ''default_secret'' ''admin'' 2000)
      else if token = ''tok-guest'' then Some (demo_jwt ''default_secret'' ''guest'' 2000)
      else if token = ''tok-old'' then Some (demo_jwt ''default_secret'' ''admin'' 500)
      else if token = ''tok-forged'' then Some (demo_jwt ''another_secret'' ''admin'' 2000)
      else None)"

definition demo_env :: jwt_env where
  "demo_env = \<lparr>wire = demo_wire, clock = 1000\<rparr>"

definition demo_request :: "string \<Rightarrow> string option \<Rightarrow> request" where
  "demo_request p h = \<lparr>path = p, authorization = h\<rparr>"

text \<open>A handler behind the middleware that answers every request the same way.\<close>

definition served :: "request \<Rightarrow> response" where
  "served req = Response 200 (StatusBody ''served'' (path req))"

section \<open>Validation of a submitted batch\<close>

lemma and_then_Inr_iff: "and_then r f = Inr y \<longleftrightarrow> (\<exists>x. r = Inr x \<and> f x = Inr y)"
  by (cases r) (simp_all add: and_then_def)

lemma comprehension_Inr_iff:
  "comprehension f xs = Inr ys \<longleftrightarrow> list_all2 (\<lambda>x y. f x = Inr y) xs ys"
proof (induction xs arbitrary: ys)
  case Nil
  then show ?case by auto
next
  case (Cons x xs)
  then show ?case
    by (auto simp: and_then_Inr_iff list_all2_Cons1)
qed

lemma comprehension_accepts:
  "(\<exists>ys. comprehension f xs = Inr ys) \<longleftrightarrow> list_all (\<lambda>x. \<exists>y. f x = Inr y) xs"
  by (induction xs) (auto simp: and_then_Inr_iff)

lemma comprehension_length: "comprehension f xs = Inr ys \<Longrightarrow> length ys = length xs"
  by (simp add: comprehension_Inr_iff list_all2_lengthD)

lemma Field_Inr_iff: "Field name lo hi v = Inr x \<longleftrightarrow> v = Some x \<and> lo \<le> x \<and> x \<le> hi"
  by (cases v) (auto simp: Field_def)

lemma AdmissionInput_init_accepts:
  "(\<exists>a. AdmissionInput_init inp = Inr a) \<longleftrightarrow> within_bounds inp"
  unfolding AdmissionInput_init_def within_bounds_def in_range_def
  by (auto simp: and_then_Inr_iff Field_Inr_iff split: option.splits)

lemma BatchAdmissionInput_init_Inr_iff:
  "BatchAdmissionInput_init v = Inr b
     \<longleftrightarrow> 1 \<le> length v \<and> length v \<le> 1000 \<and> b = \<lparr>batch_inputs = v\<rparr>"
  by (cases v) (auto simp: BatchAdmissionInput_init_def validate_batch_size_def)

lemma validation_accepts:
  "(\<exists>b. and_then (comprehension AdmissionInput_init inps) BatchAdmissionInput_init = Inr b)
     \<longleftrightarrow> valid_batch inps"
  unfolding valid_batch_def and_then_Inr_iff BatchAdmissionInput_init_Inr_iff
  using comprehension_accepts[of AdmissionInput_init inps]
    comprehension_length[of AdmissionInput_init inps]
  by (auto simp: AdmissionInput_init_accepts)

lemma within_bounds_sample: "within_bounds sample_input"
  by (simp add: within_bounds_def in_range_def sample_input_def)

lemma batch_submit_outcome:
  "(valid_batch inps \<longrightarrow>
      (\<exists>v. comprehension AdmissionInput_init inps = Inr v \<and>
        batch_submit js job_id now inps =
          (Response 200 (MessageBody job_id ''pending'' ''Batch job submitted successfully''),
           js(job_id \<mapsto> \<lparr>status = ''pending'', results = [], created_at = now, inputs = v,
                           error = None, completed_at = None\<rparr>),
           Some v)))
   \<and> (\<not> valid_batch inps \<longrightarrow>
      (\<exists>m. batch_submit js job_id now inps = (Response 400 (ErrorBody m), js, None)))"
proof (cases "valid_batch inps")
  case True
  then obtain b where
    b: "and_then (comprehension AdmissionInput_init inps) BatchAdmissionInput_init = Inr b"
    using validation_accepts by blast
  then obtain v where
    v: "comprehension AdmissionInput_init inps = Inr v" "BatchAdmissionInput_init v = Inr b"
    by (auto simp: and_then_Inr_iff)
  then have "batch_inputs b = v"
    by (simp add: BatchAdmissionInput_init_Inr_iff)
  with True b v show ?thesis
    by (simp add: batch_submit_def)
next
  case False
  then have
    "\<nexists>b. and_then (comprehension AdmissionInput_init inps) BatchAdmissionInput_init = Inr b"
    using validation_accepts by blast
  then obtain e where
    "and_then (comprehension AdmissionInput_init inps) BatchAdmissionInput_init = Inl e"
    by (cases "and_then (comprehension AdmissionInput_init inps) BatchAdmissionInput_init") auto
  with False show ?thesis
    by (simp add: batch_submit_def)
qed

text \<open>
  Claim C4. \<^verbatim>\<open>batch_submit\<close> accepts exactly the batches of 1 to 1000 inputs that are all
  within the field bounds: such a batch is answered 200 and its job is stored as
  \<^verbatim>\<open>pending\<close> with the validated inputs; any other batch is answered 400, and then the
  store is the one before the call, no thread is started and the response carries no job
  identifier.
\<close>

theorem batch_submit_validation:
  "(valid_batch inps \<longrightarrow>
      (\<exists>v. comprehension AdmissionInput_init inps = Inr v \<and>
        batch_submit js job_id now inps =
          (Response 200 (MessageBody job_id ''pending'' ''Batch job submitted successfully''),
           js(job_id \<mapsto> \<lparr>status = ''pending'', results = [], created_at = now, inputs = v,
                           error = None, completed_at = None\<rparr>),
           Some v)))
   \<and> (\<not> valid_batch inps \<longrightarrow>
      (\<exists>m. batch_submit js job_id now inps = (Response 400 (ErrorBody m), js, None)))"
  by (rule batch_submit_outcome)

text \<open>
  The three sizes the specification names: an empty batch and one of 1001 sample inputs
  are answered 400 and leave an empty store empty; one of 1000 sample inputs is answered
  200.
\<close>

theorem batch_submit_validation_witness:
  "(\<exists>m. batch_submit Map.empty ''job-1'' 0 [] = (Response 400 (ErrorBody m), Map.empty, None))
   \<and> status_code (fst (batch_submit Map.empty ''job-1'' 0 (replicate 1000 sample_input))) = 200
   \<and> (\<exists>m. batch_submit Map.empty ''job-1'' 0 (replicate 1001 sample_input)
            = (Response 400 (ErrorBody m), Map.empty, None))"
proof -
  have none: "\<not> valid_batch []"
    by (simp add: valid_batch_def)
  have full: "valid_batch (replicate 1000 sample_input)"
    by (simp add: valid_batch_def list_all_iff within_bounds_sample)
  have over: "\<not> valid_batch (replicate 1001 sample_input)"
    by (simp add: valid_batch_def)
  show ?thesis
    using batch_submit_validation[of "[]" Map.empty "''job-1''" 0] none
      batch_submit_validation[of "replicate 1000 sample_input" Map.empty "''job-1''" 0] full
      batch_submit_validation[of "replicate 1001 sample_input" Map.empty "''job-1''" 0] over
    by auto
qed

section \<open>The invariant of the job store\<close>

lemma inv_init: "store_inv self init"
  by (simp add: store_inv_def init_def)

lemma batch_submit_cases:
  "(\<exists>v. comprehension AdmissionInput_init inps = Inr v \<and> valid_batch inps \<and>
        batch_submit js job_id now inps =
          (Response 200 (MessageBody job_id ''pending'' ''Batch job submitted successfully''),
           js(job_id \<mapsto> \<lparr>status = ''pending'', results = [], created_at = now, inputs = v,
                           error = None, completed_at = None\<rparr>),
           Some v))
   \<or> (\<exists>m. batch_submit js job_id now inps = (Response 400 (ErrorBody m), js, None))"
  using batch_submit_outcome[of inps js job_id now] by blast

lemma step_Submit:
  "step self s (Submit k now inps) = s \<or>
   (\<exists>v. jobs s k = None \<and> valid_batch inps \<and> comprehension AdmissionInput_init inps = Inr v \<and>
      step self s (Submit k now inps) =
        \<lparr>jobs = (jobs s)(k \<mapsto> \<lparr>status = ''pending'', results = [], created_at = now, inputs = v,
                           error = None, completed_at = None\<rparr>),
         threads = (threads s)(k \<mapsto> Spawned v)\<rparr>)"
proof (cases "jobs s k")
  case (Some a)
  then show ?thesis by (simp add: step_def)
next
  case None
  from batch_submit_cases[of inps "jobs s" k now] show ?thesis
  proof (elim disjE exE conjE)
    fix v assume "comprehension AdmissionInput_init inps = Inr v" "valid_batch inps"
      "batch_submit (jobs s) k now inps =
          (Response 200 (MessageBody k ''pending'' ''Batch job submitted successfully''),
           (jobs s)(k \<mapsto> \<lparr>status = ''pending'', results = [], created_at = now, inputs = v,
                           error = None, completed_at = None\<rparr>),
           Some v)"
    with None show ?thesis by (simp add: step_def)
  next
    fix m assume "batch_submit (jobs s) k now inps = (Response 400 (ErrorBody m), jobs s, None)"
    with None show ?thesis by (simp add: step_def)
  qed
qed

lemma step_Start:
  "step self s (Start k) = s \<or>
   (\<exists>args j. threads s k = Some (Spawned args) \<and> jobs s k = Some j \<and>
      step self s (Start k) =
        \<lparr>jobs = (jobs s)(k \<mapsto> j\<lparr>status := ''processing''\<rparr>),
         threads = (threads s)(k \<mapsto> Running args)\<rparr>) \<or>
   (\<exists>args. threads s k = Some (Spawned args) \<and> jobs s k = None)"
  by (auto simp: step_def process_start_def split: option.splits thread.splits)

lemma step_Finish:
  "step self s (Finish k now) = s \<or>
   (\<exists>args j. threads s k = Some (Running args) \<and> jobs s k = Some j \<and>
      step self s (Finish k now) =
        \<lparr>jobs = (jobs s)(k \<mapsto>
            (case compute_results self args of
               Inr res \<Rightarrow> j\<lparr>status := ''completed'', results := res, completed_at := Some now\<rparr>
             | Inl e \<Rightarrow> j\<lparr>status := ''failed'', error := Some (str_exn e),
                           completed_at := Some now\<rparr>)),
         threads = (threads s)(k \<mapsto> Finished)\<rparr>) \<or>
   (\<exists>args. threads s k = Some (Running args) \<and> jobs s k = None)"
  by (auto simp: step_def process_finish_def split: option.splits thread.splits sum.splits)

lemma inv_step: assumes "store_inv self s" shows "store_inv self (step self s ev)"
proof (cases ev)
  case (Submit k now inps)
  from step_Submit[of self s k now inps] assms show ?thesis
    unfolding Submit store_inv_def by (auto)
next
  case (Start k)
  have ok: "job_ok self (jobs s k) (threads s k)" using assms by (simp add: store_inv_def)
  from step_Start[of self s k] show ?thesis
  proof (elim disjE exE conjE)
    assume "step self s (Start k) = s" with assms Start show ?thesis by simp
  next
    fix args j assume a: "threads s k = Some (Spawned args)" "jobs s k = Some j"
      "step self s (Start k) = \<lparr>jobs = (jobs s)(k \<mapsto> j\<lparr>status := ''processing''\<rparr>),
         threads = (threads s)(k \<mapsto> Running args)\<rparr>"
    with ok assms show ?thesis unfolding Start store_inv_def by auto
  next
    fix args assume "threads s k = Some (Spawned args)" "jobs s k = None"
    with ok show ?thesis by simp
  qed
next
  case (Finish k now)
  have ok: "job_ok self (jobs s k) (threads s k)" using assms by (simp add: store_inv_def)
  from step_Finish[of self s k now] show ?thesis
  proof (elim disjE exE conjE)
    assume "step self s (Finish k now) = s" with assms Finish show ?thesis by simp
  next
    fix args j assume a: "threads s k = Some (Running args)" "jobs s k = Some j"
      "step self s (Finish k now) = \<lparr>jobs = (jobs s)(k \<mapsto>
            (case compute_results self args of
               Inr res \<Rightarrow> j\<lparr>status := ''completed'', results := res, completed_at := Some now\<rparr>
             | Inl e \<Rightarrow> j\<lparr>status := ''failed'', error := Some (str_exn e),
                           completed_at := Some now\<rparr>)),
         threads = (threads s)(k \<mapsto> Finished)\<rparr>"
    with ok assms show ?thesis unfolding Finish store_inv_def by (auto split: sum.splits)
  next
    fix args assume "threads s k = Some (Running args)" "jobs s k = None"
    with ok show ?thesis by simp
  qed
qed

lemma run_snoc: "run self s (evs @ [ev]) = step self (run self s evs) ev"
  by (simp add: run_def)

lemma inv_run: "store_inv self s \<Longrightarrow> store_inv self (run self s evs)"
  by (induction evs rule: rev_induct) (simp_all add: run_def inv_step)



lemma status_rank_simps [simp]:
  "status_rank ''pending'' = 0" "status_rank ''processing'' = 1"
  "status_rank ''completed'' = 2" "status_rank ''failed'' = 2"
  by (simp_all add: status_rank_def)

lemma terminal_simps [simp]:
  "\<not> terminal ''pending''" "\<not> terminal ''processing''"
  "terminal ''completed''" "terminal ''failed''"
  by (simp_all add: terminal_def)

lemma step_keeps:
  assumes "store_inv self s" and "jobs s k = Some j"
  shows "\<exists>j'. jobs (step self s ev) k = Some j' \<and> inputs j' = inputs j
           \<and> status_rank (status j) \<le> status_rank (status j')
           \<and> (terminal (status j) \<longrightarrow> j' = j)"
proof (cases ev)
  case (Submit k' now inps)
  from step_Submit[of self s k' now inps] show ?thesis
  proof (elim disjE exE conjE)
    assume "step self s (Submit k' now inps) = s"
    with assms Submit show ?thesis by simp
  next
    fix v assume a: "jobs s k' = None"
      "step self s (Submit k' now inps) =
        \<lparr>jobs = (jobs s)(k' \<mapsto> \<lparr>status = ''pending'', results = [], created_at = now, inputs = v,
                           error = None, completed_at = None\<rparr>),
         threads = (threads s)(k' \<mapsto> Spawned v)\<rparr>"
    from a(1) assms(2) have "k' \<noteq> k" by auto
    with a(2) assms(2) Submit show ?thesis by simp
  qed
next
  case (Start k')
  from step_Start[of self s k'] show ?thesis
  proof (elim disjE exE conjE)
    assume "step self s (Start k') = s"
    with assms Start show ?thesis by simp
  next
    fix args j0 assume a: "threads s k' = Some (Spawned args)" "jobs s k' = Some j0"
      "step self s (Start k') = \<lparr>jobs = (jobs s)(k' \<mapsto> j0\<lparr>status := ''processing''\<rparr>),
         threads = (threads s)(k' \<mapsto> Running args)\<rparr>"
    show ?thesis
    proof (cases "k' = k")
      case True
      have "job_ok self (jobs s k) (threads s k)" using assms(1) by (simp add: store_inv_def)
      with a(1,2) True assms(2) have "status j = ''pending''" "j0 = j" by simp_all
      with a(3) True Start show ?thesis by simp
    next
      case False
      with a(3) assms(2) Start show ?thesis by simp
    qed
  next
    fix args assume a: "threads s k' = Some (Spawned args)" "jobs s k' = None"
    have "job_ok self (jobs s k') (threads s k')" using assms(1) by (simp add: store_inv_def)
    with a show ?thesis by simp
  qed
next
  case (Finish k' now)
  from step_Finish[of self s k' now] show ?thesis
  proof (elim disjE exE conjE)
    assume "step self s (Finish k' now) = s"
    with assms Finish show ?thesis by simp
  next
    fix args j0 assume a: "threads s k' = Some (Running args)" "jobs s k' = Some j0"
      "step self s (Finish k' now) = \<lparr>jobs = (jobs s)(k' \<mapsto>
            (case compute_results self args of
               Inr res \<Rightarrow> j0\<lparr>status := ''completed'', results := res, completed_at := Some now\<rparr>
             | Inl e \<Rightarrow> j0\<lparr>status := ''failed'', error := Some (str_exn e),
                           completed_at := Some now\<rparr>)),
         threads = (threads s)(k' \<mapsto> Finished)\<rparr>"
    show ?thesis
    proof (cases "k' = k")
      case True
      have "job_ok self (jobs s k) (threads s k)" using assms(1) by (simp add: store_inv_def)
      with a(1,2) True assms(2) have "status j = ''processing''" "j0 = j" by simp_all
      with a(3) True Finish show ?thesis by (simp split: sum.splits)
    next
      case False
      with a(3) assms(2) Finish show ?thesis by simp
    qed
  next
    fix args assume a: "threads s k' = Some (Running args)" "jobs s k' = None"
    have "job_ok self (jobs s k') (threads s k')" using assms(1) by (simp add: store_inv_def)
    with a show ?thesis by simp
  qed
qed

lemma run_keeps:
  assumes "store_inv self s" and "jobs s k = Some j"
  shows "\<exists>j'. jobs (run self s evs) k = Some j' \<and> inputs j' = inputs j
           \<and> status_rank (status j) \<le> status_rank (status j')
           \<and> (terminal (status j) \<longrightarrow> j' = j)"
proof (induction evs rule: rev_induct)
  case Nil
  with assms show ?case by (simp add: run_def)
next
  case (snoc ev evs)
  then obtain j' where j': "jobs (run self s evs) k = Some j'" "inputs j' = inputs j"
    "status_rank (status j) \<le> status_rank (status j')" "terminal (status j) \<longrightarrow> j' = j"
    by blast
  have "store_inv self (run self s evs)" using assms(1) by (rule inv_run)
  from step_keeps[OF this j'(1), of ev] j' show ?case
    unfolding run_snoc by auto
qed

lemma job_status_cases:
  assumes "store_inv self s" and "jobs s k = Some j"
  shows "(status j = ''pending'' \<and> results j = [] \<and> error j = None)
       \<or> (status j = ''processing'' \<and> results j = [] \<and> error j = None)
       \<or> (status j = ''completed'' \<and> compute_results self (inputs j) = Inr (results j) \<and> error j = None)
       \<or> (\<exists>e. status j = ''failed'' \<and> results j = [] \<and> compute_results self (inputs j) = Inl e \<and> error j = Some (str_exn e))"
proof -
  have ok: "job_ok self (Some j) (threads s k)"
    using assms by (auto simp: store_inv_def dest: spec[of _ k])
  then show ?thesis
  proof (cases "threads s k")
    case None
    with ok show ?thesis by simp
  next
    case (Some t)
    with ok show ?thesis
      by (cases t) (auto split: sum.splits)
  qed
qed





lemma AdmissionOutput_init_Inr_iff:
  "AdmissionOutput_init c = Inr r \<longleftrightarrow> 0 \<le> c \<and> c \<le> 1 \<and> r = \<lparr>chance_of_admit = c\<rparr>"
  by (auto simp: AdmissionOutput_init_def and_then_Inr_iff Field_Inr_iff)

lemma sk_predict_Inr_iff:
  "sk_predict m X = Inr ys \<longleftrightarrow>
     X \<noteq> [] \<and> (\<forall>row \<in> set X. length row = length (coef m))
     \<and> ys = map (\<lambda>row. dot row (coef m) + intercept m) X"
  by (auto simp: sk_predict_def list_ex_iff)

lemma compute_results_Inr:
  assumes "compute_results self inps = Inr res"
  shows "length res = length inps"
    and "i < length inps \<Longrightarrow>
           sk_predict (batch_model self) [features_of (inps ! i)] = Inr [chance_of_admit (res ! i)]"
    and "i < length inps \<Longrightarrow> 0 \<le> chance_of_admit (res ! i) \<and> chance_of_admit (res ! i) \<le> 1"
proof -
  from assms obtain ys where
    ys: "sk_predict (batch_model self) (map features_of inps) = Inr ys"
      "comprehension AdmissionOutput_init ys = Inr res"
    by (auto simp: compute_results_def and_then_Inr_iff)
  from ys(2) have l2: "list_all2 (\<lambda>y r. AdmissionOutput_init y = Inr r) ys res"
    by (simp add: comprehension_Inr_iff)
  from ys(1) have ys_eq: "ys = map (\<lambda>row. dot row (coef (batch_model self)) + intercept (batch_model self)) (map features_of inps)"
    and len: "\<forall>row \<in> set (map features_of inps). length row = length (coef (batch_model self))"
    by (simp_all add: sk_predict_Inr_iff)
  from l2 ys_eq show "length res = length inps"
    by (auto dest: list_all2_lengthD)
  {
    assume i: "i < length inps"
    then have "AdmissionOutput_init (ys ! i) = Inr (res ! i)"
      using l2 ys_eq by (auto simp: list_all2_conv_all_nth)
    then have r: "0 \<le> ys ! i" "ys ! i \<le> 1" "chance_of_admit (res ! i) = ys ! i"
      by (auto simp: AdmissionOutput_init_Inr_iff)
    from r show "0 \<le> chance_of_admit (res ! i) \<and> chance_of_admit (res ! i) \<le> 1" by simp
    from i len have "length (features_of (inps ! i)) = length (coef (batch_model self))"
      by simp
    with r(3) i ys_eq show "sk_predict (batch_model self) [features_of (inps ! i)] = Inr [chance_of_admit (res ! i)]"
      by (simp add: sk_predict_def)
  }
qed


section \<open>Runs of the concrete service\<close>

lemma init_sample: "AdmissionInput_init sample_input = Inr sample_admission"
  by (simp add: AdmissionInput_init_def sample_input_def sample_admission_def and_then_def Field_def)

lemma init_top: "AdmissionInput_init top_input = Inr top_admission"
  by (simp add: AdmissionInput_init_def top_input_def top_admission_def and_then_def Field_def)

lemma compute_sample:
  "compute_results demo_service [sample_admission] = Inr [\<lparr>chance_of_admit = 0.96871\<rparr>]"
  by (simp add: compute_results_def demo_service_def demo_model_def sk_predict_def features_of_def
      sample_admission_def dot_def and_then_def AdmissionOutput_init_def Field_def)

lemma compute_top:
  "compute_results demo_service [top_admission] = Inl (ValidationError ''chance_of_admit'')"
  by (simp add: compute_results_def demo_service_def demo_model_def sk_predict_def features_of_def
      top_admission_def dot_def and_then_def AdmissionOutput_init_def Field_def)

lemma submit_sample:
  "batch_submit js k now [sample_input] =
     (Response 200 (MessageBody k ''pending'' ''Batch job submitted successfully''),
      js(k \<mapsto> \<lparr>status = ''pending'', results = [], created_at = now, inputs = [sample_admission],
                           error = None, completed_at = None\<rparr>),
      Some [sample_admission])"
  by (simp add: batch_submit_def init_sample and_then_def BatchAdmissionInput_init_def validate_batch_size_def)

lemma run_completed:
  "jobs (run demo_service init [Submit ''job-1'' 0 [sample_input], Start ''job-1'', Finish ''job-1'' 1]) ''job-1'' =
     Some \<lparr>status = ''completed'', results = [\<lparr>chance_of_admit = 0.96871\<rparr>], created_at = 0, inputs = [sample_admission],
                           error = None, completed_at = Some 1\<rparr>"
  by (simp add: run_def step_def init_def submit_sample process_start_def process_finish_def compute_sample)



lemma submit_top:
  "batch_submit js k now [top_input] =
     (Response 200 (MessageBody k ''pending'' ''Batch job submitted successfully''),
      js(k \<mapsto> \<lparr>status = ''pending'', results = [], created_at = now, inputs = [top_admission],
                           error = None, completed_at = None\<rparr>),
      Some [top_admission])"
  by (simp add: batch_submit_def init_top and_then_def BatchAdmissionInput_init_def validate_batch_size_def)

lemma run_processing:
  "jobs (run demo_service init [Submit ''job-1'' 0 [sample_input], Start ''job-1'']) ''job-1'' =
     Some \<lparr>status = ''processing'', results = [], created_at = 0, inputs = [sample_admission],
           error = None, completed_at = None\<rparr>"
  by (simp add: run_def step_def init_def submit_sample process_start_def)

lemma run_failed:
  "jobs (run demo_service init [Submit ''job-2'' 0 [top_input], Start ''job-2'', Finish ''job-2'' 1]) ''job-2'' =
     Some \<lparr>status = ''failed'', results = [], created_at = 0, inputs = [top_admission],
           error = Some ''chance_of_admit'', completed_at = Some 1\<rparr>"
  by (simp add: run_def step_def init_def submit_top process_start_def process_finish_def compute_top)

text \<open>
  The thread of the first job finishes; a second submission under the same identifier and
  a second start of the thread do not happen.
\<close>

lemma run_continued:
  "jobs (run demo_service
          (run demo_service init [Submit ''job-1'' 0 [sample_input], Start ''job-1''])
          [Finish ''job-1'' 1, Submit ''job-1'' 2 [sample_input], Start ''job-1'']) ''job-1''
     = Some \<lparr>status = ''completed'', results = [\<lparr>chance_of_admit = 0.96871\<rparr>], created_at = 0,
             inputs = [sample_admission], error = None, completed_at = Some 1\<rparr>"
  by (simp add: run_def step_def init_def submit_sample process_start_def process_finish_def
      compute_sample)

section \<open>The claims on the batch lifecycle\<close>



text \<open>
  Claim C2. Take any state the service reaches and any job in it, and let the service run
  on. The job is still in the store, a status query answers with its status before and
  after, the later status is not earlier in the order
  \<^verbatim>\<open>pending\<close>, \<^verbatim>\<open>processing\<close>, \<^verbatim>\<open>completed\<close> or \<^verbatim>\<open>failed\<close>, and a job that
  was \<^verbatim>\<open>completed\<close> or \<^verbatim>\<open>failed\<close> is the same record afterwards.
\<close>

theorem status_monotonic:
  assumes "jobs (run self init evs) k = Some j"
  shows "\<exists>j'. jobs (run self (run self init evs) evs') k = Some j'
    \<and> batch_status_get (jobs (run self init evs)) k u
         = Inr (Response 200 (StatusBody k (status j)))
    \<and> batch_status_get (jobs (run self (run self init evs) evs')) k u'
         = Inr (Response 200 (StatusBody k (status j')))
    \<and> status j \<in> set [''pending'', ''processing'', ''completed'', ''failed'']
    \<and> status_rank (status j) \<le> status_rank (status j')
    \<and> (terminal (status j) \<longrightarrow> j' = j)"
proof -
  have sinv: "store_inv self (run self init evs)"
    by (rule inv_run) (rule inv_init)
  from run_keeps[OF sinv assms, of evs'] obtain j' where
    j': "jobs (run self (run self init evs) evs') k = Some j'"
      "status_rank (status j) \<le> status_rank (status j')" "terminal (status j) \<longrightarrow> j' = j"
    by blast
  from job_status_cases[OF sinv assms]
  have "status j \<in> set [''pending'', ''processing'', ''completed'', ''failed'']"
    by auto
  with j' assms show ?thesis
    by (simp add: batch_status_get_def)
qed

theorem status_monotonic_witness:
  "\<exists>j j'. jobs (run demo_service init [Submit ''job-1'' 0 [sample_input], Start ''job-1'']) ''job-1''
            = Some j
     \<and> jobs (run demo_service
               (run demo_service init [Submit ''job-1'' 0 [sample_input], Start ''job-1''])
               [Finish ''job-1'' 1, Submit ''job-1'' 2 [sample_input], Start ''job-1'']) ''job-1''
            = Some j'
     \<and> status j = ''processing'' \<and> status j' = ''completed''
     \<and> status_rank (status j) \<le> status_rank (status j')"
  using status_monotonic[OF run_processing,
      of "[Finish ''job-1'' 1, Submit ''job-1'' 2 [sample_input], Start ''job-1'']"]
  by (auto simp: run_processing run_continued)

text \<open>
  Claim C3. In every state the service reaches, a job has results only when its status is
  \<^verbatim>\<open>completed\<close>, it has an error cause exactly when its status is \<^verbatim>\<open>failed\<close>, and a
  failed job has no results.
\<close>

theorem results_and_error_follow_status:
  assumes "jobs (run self init evs) k = Some j"
  shows "(results j \<noteq> [] \<longrightarrow> status j = ''completed'')
    \<and> (error j \<noteq> None \<longleftrightarrow> status j = ''failed'')
    \<and> (status j = ''failed'' \<longrightarrow> results j = [])"
proof -
  have "store_inv self (run self init evs)"
    by (rule inv_run) (rule inv_init)
  from job_status_cases[OF this assms] show ?thesis
    by auto
qed

theorem results_and_error_follow_status_witness:
  "(\<exists>j. jobs (run demo_service init
             [Submit ''job-2'' 0 [top_input], Start ''job-2'', Finish ''job-2'' 1]) ''job-2''
           = Some j
      \<and> status j = ''failed'' \<and> error j = Some ''chance_of_admit'' \<and> results j = [])
   \<and> (\<exists>j. jobs (run demo_service init
             [Submit ''job-1'' 0 [sample_input], Start ''job-1'', Finish ''job-1'' 1]) ''job-1''
           = Some j
      \<and> status j = ''completed'' \<and> error j = None \<and> results j \<noteq> [])"
  using results_and_error_follow_status[OF run_failed]
    results_and_error_follow_status[OF run_completed]
  by (simp add: run_failed run_completed)


text \<open>
  The results that a completed job stores have passed the bounds of \<^verbatim>\<open>AdmissionOutput\<close>.
\<close>

lemma completed_results_in_unit_interval:
  assumes "jobs (run self init evs) k = Some j" and "status j = ''completed''"
    and "r \<in> set (results j)"
  shows "0 \<le> chance_of_admit r \<and> chance_of_admit r \<le> 1"
proof -
  have "store_inv self (run self init evs)"
    by (rule inv_run) (rule inv_init)
  from job_status_cases[OF this assms(1)] assms(2)
  have res: "compute_results self (inputs j) = Inr (results j)"
    by auto
  from assms(3) obtain i where i: "i < length (results j)" "r = results j ! i"
    by (auto simp: in_set_conv_nth)
  with compute_results_Inr(1)[OF res] have "i < length (inputs j)"
    by simp
  from compute_results_Inr(3)[OF res this] i show ?thesis
    by simp
qed

section \<open>The results endpoint\<close>

lemma Depends_Inr:
  "dependency credentials = Inr u \<Longrightarrow>
     Depends dependency credentials handler = fastapi_response (handler u)"
  by (simp add: Depends_def)

lemma Depends_Inl:
  "dependency credentials = Inl (HTTPException c d) \<Longrightarrow>
     Depends dependency credentials handler = Response c d"
  by (simp add: Depends_def)

lemma get_current_user_tok_admin:
  "get_current_user demo_env default_config ''tok-admin''
     = Inr \<lparr>sub = ''admin'', exp = 2000, iat = 200\<rparr>"
  by (simp add: get_current_user_def verify_token_def jwt_decode_def demo_env_def demo_wire_def
      demo_jwt_def default_config_def)

text \<open>
  Claim C5. For a request that passed \<^verbatim>\<open>get_current_user\<close> and a job of a state the
  service reaches, the answer of the results endpoint follows the status: 202 with the
  still-processing message for \<^verbatim>\<open>pending\<close> and \<^verbatim>\<open>processing\<close>, 500 with the recorded
  cause for \<^verbatim>\<open>failed\<close>, 200 with the identifier, the status, the results in their order
  and a total equal to the number of inputs for \<^verbatim>\<open>completed\<close>; and the status is one of
  these four.
\<close>

theorem results_response_by_status:
  assumes "jobs (run self init evs) k = Some j"
    and "get_current_user env cfg credentials = Inr u"
  shows "(status j = ''pending'' \<or> status j = ''processing'' \<longrightarrow>
            get_batch_results env cfg (jobs (run self init evs)) k credentials
              = Response 202 (MessageBody k (status j) ''Job is still processing''))
    \<and> (status j = ''failed'' \<longrightarrow>
          (\<exists>cause. error j = Some cause
             \<and> get_batch_results env cfg (jobs (run self init evs)) k credentials
                 = Response 500 (FailedDetail k ''failed'' cause)))
    \<and> (status j = ''completed'' \<longrightarrow>
          get_batch_results env cfg (jobs (run self init evs)) k credentials
            = Response 200
                (ResultsBody k ''completed'' (map model_dump (results j)) (length (inputs j))))
    \<and> status j \<in> set [''pending'', ''processing'', ''completed'', ''failed'']"
proof -
  have sinv: "store_inv self (run self init evs)"
    by (rule inv_run) (rule inv_init)
  have resp: "get_batch_results env cfg (jobs (run self init evs)) k credentials
      = fastapi_response (batch_results_get (jobs (run self init evs)) k u)"
    unfolding get_batch_results_def using assms(2) by (rule Depends_Inr)
  from job_status_cases[OF sinv assms(1)] show ?thesis
  proof (elim disjE exE conjE)
    assume "status j = ''pending''"
    then show ?thesis
      by (simp add: resp batch_results_get_def assms(1))
  next
    assume "status j = ''processing''"
    then show ?thesis
      by (simp add: resp batch_results_get_def assms(1))
  next
    assume c: "status j = ''completed''" "compute_results self (inputs j) = Inr (results j)"
    from compute_results_Inr(1)[OF c(2)] c(1) show ?thesis
      by (simp add: resp batch_results_get_def assms(1))
  next
    fix e assume "status j = ''failed''" "error j = Some (str_exn e)"
    then show ?thesis
      by (simp add: resp batch_results_get_def assms(1))
  qed
qed

theorem results_response_by_status_witness:
  "get_batch_results demo_env default_config
     (jobs (run demo_service init [Submit ''job-1'' 0 [sample_input], Start ''job-1'']))
     ''job-1'' ''tok-admin''
     = Response 202 (MessageBody ''job-1'' ''processing'' ''Job is still processing'')
   \<and> get_batch_results demo_env default_config
     (jobs (run demo_service init
        [Submit ''job-2'' 0 [top_input], Start ''job-2'', Finish ''job-2'' 1]))
     ''job-2'' ''tok-admin''
     = Response 500 (FailedDetail ''job-2'' ''failed'' ''chance_of_admit'')
   \<and> get_batch_results demo_env default_config
     (jobs (run demo_service init
        [Submit ''job-1'' 0 [sample_input], Start ''job-1'', Finish ''job-1'' 1]))
     ''job-1'' ''tok-admin''
     = Response 200 (ResultsBody ''job-1'' ''completed'' [[(''chance_of_admit'', 0.96871)]] 1)"
  using results_response_by_status[OF run_processing get_current_user_tok_admin]
    results_response_by_status[OF run_failed get_current_user_tok_admin]
    results_response_by_status[OF run_completed get_current_user_tok_admin]
  by (simp add: model_dump_def)

section \<open>The authentication gate\<close>

lemma str_split_first: "\<exists>ws. str_split c t = takeWhile (\<lambda>x. x \<noteq> c) t # ws"
  by (induction t) auto

lemma startswith_Bearer: "startswith h ''Bearer '' \<Longrightarrow> h = ''Bearer '' @ drop 7 h"
proof -
  assume "startswith h ''Bearer ''"
  then have "take (length ''Bearer '') h = ''Bearer ''"
    by (simp only: startswith_def)
  moreover have "length ''Bearer '' = 7"
    by simp
  ultimately have "take 7 h = ''Bearer ''"
    by (simp only:)
  then show ?thesis
    using append_take_drop_id[of 7 h] by simp
qed

lemma str_split_Bearer:
  assumes "startswith h ''Bearer ''"
  shows "\<exists>ws. str_split CHR '' '' h = ''Bearer'' # bearer_token h # ws"
proof -
  obtain ws where ws: "str_split CHR '' '' (drop 7 h) = bearer_token h # ws"
    unfolding bearer_token_def using str_split_first by blast
  have "str_split CHR '' '' (''Bearer '' @ drop 7 h) = ''Bearer'' # bearer_token h # ws"
    by (simp add: ws)
  with startswith_Bearer[OF assms] show ?thesis by metis
qed

lemma dispatch_public:
  "list_ex (startswith (path req)) PUBLIC_PATHS \<Longrightarrow> dispatch env cfg req call_next = call_next req"
  by (simp add: dispatch_def)

lemma dispatch_no_bearer:
  assumes "\<not> list_ex (startswith (path req)) PUBLIC_PATHS"
    and "\<forall>h. authorization req = Some h \<longrightarrow> \<not> startswith h ''Bearer ''"
  shows "dispatch env cfg req call_next = Response 401 (ErrorBody ''Missing or invalid token'')"
  using assms by (cases "authorization req") (simp_all add: dispatch_def)

lemma dispatch_bearer:
  assumes "\<not> list_ex (startswith (path req)) PUBLIC_PATHS"
    and "authorization req = Some h" and "startswith h ''Bearer ''"
  shows "dispatch env cfg req call_next =
     (case verify_token env cfg (bearer_token h) of
        Inl ExpiredSignatureError \<Rightarrow> Response 401 (ErrorBody ''Token expired'')
      | Inl InvalidTokenError \<Rightarrow> Response 401 (ErrorBody ''Invalid token'')
      | Inr claim \<Rightarrow> call_next req)"
proof -
  from str_split_Bearer[OF assms(3)] obtain ws where
    "str_split CHR '' '' h = ''Bearer'' # bearer_token h # ws" by blast
  moreover from assms(3) have "h \<noteq> []" by (auto simp: startswith_def)
  ultimately show ?thesis
    using assms by (simp add: dispatch_def)
qed

text \<open>
  Claim C6. A request whose path starts with one of \<^verbatim>\<open>PUBLIC_PATHS\<close> (login, the
  health, readiness and liveness probes, docs, openapi, metrics) is handed on whatever the
  tokens on the wire and the clock are. Any other request with no \<^verbatim>\<open>Authorization\<close>
  header, or with one that does not start with \<^verbatim>\<open>Bearer \<close>, is answered 401, again
  whatever they are: the verification has no part in the answer. Any other request with
  such a header is answered by the verification of its token: 401 \<^verbatim>\<open>Token expired\<close>,
  401 \<^verbatim>\<open>Invalid token\<close>, or the request is handed on when the token verifies.
\<close>

theorem dispatch_gate:
  "(list_ex (startswith (path req)) PUBLIC_PATHS \<longrightarrow>
      (\<forall>env. dispatch env cfg req call_next = call_next req))
   \<and> (\<not> list_ex (startswith (path req)) PUBLIC_PATHS
        \<and> (\<forall>h. authorization req = Some h \<longrightarrow> \<not> startswith h ''Bearer '') \<longrightarrow>
      (\<forall>env. dispatch env cfg req call_next
                = Response 401 (ErrorBody ''Missing or invalid token'')))
   \<and> (\<not> list_ex (startswith (path req)) PUBLIC_PATHS
        \<and> authorization req = Some h \<and> startswith h ''Bearer '' \<longrightarrow>
      dispatch env cfg req call_next =
        (case verify_token env cfg (bearer_token h) of
           Inl ExpiredSignatureError \<Rightarrow> Response 401 (ErrorBody ''Token expired'')
         | Inl InvalidTokenError \<Rightarrow> Response 401 (ErrorBody ''Invalid token'')
         | Inr claim \<Rightarrow> call_next req))"
  using dispatch_public dispatch_no_bearer dispatch_bearer by blast

text \<open>
  A public path, a missing header, a header of another scheme, an expired token, a token
  signed with another key, and a good token.
\<close>

lemma not_public_batch: "\<not> list_ex (startswith (''/batch/status/job-1'')) PUBLIC_PATHS"
  by (simp add: PUBLIC_PATHS_def startswith_def)

lemma public_login: "list_ex (startswith (''/login'')) PUBLIC_PATHS"
  by (simp add: PUBLIC_PATHS_def startswith_def)

lemma verify_demo:
  "verify_token demo_env default_config ''tok-admin'' = Inr \<lparr>sub = ''admin'', exp = 2000, iat = 200\<rparr>"
  "verify_token demo_env default_config ''tok-guest'' = Inr \<lparr>sub = ''guest'', exp = 2000, iat = 200\<rparr>"
  "verify_token demo_env default_config ''tok-old'' = Inl ExpiredSignatureError"
  "verify_token demo_env default_config ''tok-forged'' = Inl InvalidTokenError"
  "verify_token demo_env default_config ''invalid_token'' = Inl InvalidTokenError"
  by (simp_all add: verify_token_def jwt_decode_def demo_env_def demo_wire_def
      demo_jwt_def default_config_def)

lemma bearer_token_demo:
  "bearer_token ''Bearer tok-admin'' = ''tok-admin''"
  "bearer_token ''Bearer tok-old'' = ''tok-old''"
  "bearer_token ''Bearer tok-forged'' = ''tok-forged''"
  by (simp_all add: bearer_token_def)

theorem dispatch_gate_witness:
  "dispatch demo_env default_config (demo_request ''/login'' None) served
     = served (demo_request ''/login'' None)
   \<and> dispatch demo_env default_config (demo_request ''/batch/status/job-1'' None) served
     = Response 401 (ErrorBody ''Missing or invalid token'')
   \<and> dispatch demo_env default_config
       (demo_request ''/batch/status/job-1'' (Some ''Basic tok-admin'')) served
     = Response 401 (ErrorBody ''Missing or invalid token'')
   \<and> dispatch demo_env default_config
       (demo_request ''/batch/status/job-1'' (Some ''Bearer tok-old'')) served
     = Response 401 (ErrorBody ''Token expired'')
   \<and> dispatch demo_env default_config
       (demo_request ''/batch/status/job-1'' (Some ''Bearer tok-forged'')) served
     = Response 401 (ErrorBody ''Invalid token'')
   \<and> dispatch demo_env default_config
       (demo_request ''/batch/status/job-1'' (Some ''Bearer tok-admin'')) served
     = served (demo_request ''/batch/status/job-1'' (Some ''Bearer tok-admin''))"
  using dispatch_gate[of "demo_request ''/login'' None" default_config served]
    dispatch_gate[of "demo_request ''/batch/status/job-1'' None" default_config served]
    dispatch_gate[of "demo_request ''/batch/status/job-1'' (Some ''Basic tok-admin'')" default_config served]
    dispatch_gate[of "demo_request ''/batch/status/job-1'' (Some ''Bearer tok-old'')" default_config served "''Bearer tok-old''" demo_env]
    dispatch_gate[of "demo_request ''/batch/status/job-1'' (Some ''Bearer tok-forged'')" default_config served "''Bearer tok-forged''" demo_env]
    dispatch_gate[of "demo_request ''/batch/status/job-1'' (Some ''Bearer tok-admin'')" default_config served "''Bearer tok-admin''" demo_env]
  by (simp add: demo_request_def not_public_batch public_login verify_demo bearer_token_demo startswith_def)


section \<open>The subject of a token\<close>









section \<open>Unknown job identifiers\<close>

lemma get_current_user_Inl:
  "get_current_user env cfg credentials = Inl e \<Longrightarrow>
     e = HTTPException 401 (DetailBody ''Invalid or expired token'')"
  by (auto simp: get_current_user_def split: sum.splits)

text \<open>
  Claim C7, as stated, fails: with a token that does not verify, the status and the results
  endpoint answer 401 for an identifier that is not in the store, not 404.
\<close>

theorem unknown_job_counterexample:
  "get_batch_status demo_env default_config (jobs init) ''no-such-job'' ''invalid_token''
     = Response 401 (DetailBody ''Invalid or expired token'')
   \<and> get_batch_results demo_env default_config (jobs init) ''no-such-job'' ''invalid_token''
     = Response 401 (DetailBody ''Invalid or expired token'')
   \<and> jobs init ''no-such-job'' = None"
  by (simp add: get_batch_status_def get_batch_results_def Depends_def get_current_user_def
      verify_demo init_def)

text \<open>
  Claim C7, amended. When \<^verbatim>\<open>get_current_user\<close> returns, the status and the results
  endpoint answer 404 for an identifier that is not in the store; when it raises, both
  answer 401, whether the identifier is in the store or not.
\<close>

theorem unknown_job_after_auth:
  "(get_current_user env cfg credentials = Inr u \<and> js k = None \<longrightarrow>
      get_batch_status env cfg js k credentials = Response 404 (DetailBody ''Job not found'')
      \<and> get_batch_results env cfg js k credentials = Response 404 (DetailBody ''Job not found''))
   \<and> (get_current_user env cfg credentials = Inl e \<longrightarrow>
      get_batch_status env cfg js k credentials
        = Response 401 (DetailBody ''Invalid or expired token'')
      \<and> get_batch_results env cfg js k credentials
        = Response 401 (DetailBody ''Invalid or expired token''))"
proof (intro conjI impI)
  assume a: "get_current_user env cfg credentials = Inr u \<and> js k = None"
  then show "get_batch_status env cfg js k credentials = Response 404 (DetailBody ''Job not found'')"
    by (simp add: get_batch_status_def Depends_Inr batch_status_get_def)
  from a show "get_batch_results env cfg js k credentials = Response 404 (DetailBody ''Job not found'')"
    by (simp add: get_batch_results_def Depends_Inr batch_results_get_def)
next
  assume a: "get_current_user env cfg credentials = Inl e"
  then have e: "get_current_user env cfg credentials
      = Inl (HTTPException 401 (DetailBody ''Invalid or expired token''))"
    using get_current_user_Inl by blast
  then show "get_batch_status env cfg js k credentials
        = Response 401 (DetailBody ''Invalid or expired token'')"
    unfolding get_batch_status_def by (rule Depends_Inl)
  from e show "get_batch_results env cfg js k credentials
        = Response 401 (DetailBody ''Invalid or expired token'')"
    unfolding get_batch_results_def by (rule Depends_Inl)
qed

lemma get_current_user_invalid:
  "get_current_user demo_env default_config ''invalid_token''
     = Inl (HTTPException 401 (DetailBody ''Invalid or expired token''))"
  by (simp add: get_current_user_def verify_demo)

theorem unknown_job_after_auth_witness:
  "get_batch_status demo_env default_config (jobs init) ''no-such-job'' ''tok-admin''
     = Response 404 (DetailBody ''Job not found'')
   \<and> get_batch_results demo_env default_config (jobs init) ''no-such-job'' ''tok-admin''
     = Response 404 (DetailBody ''Job not found'')
   \<and> get_batch_status demo_env default_config
       (jobs (run demo_service init [Submit ''job-1'' 0 [sample_input]])) ''job-1''
       ''invalid_token''
     = Response 401 (DetailBody ''Invalid or expired token'')"
  using unknown_job_after_auth[of demo_env default_config "''tok-admin''" _ "jobs init" "''no-such-job''"]
    unknown_job_after_auth[of demo_env default_config "''invalid_token''" _
      "jobs (run demo_service init [Submit ''job-1'' 0 [sample_input]])" "''job-1''"]
    get_current_user_tok_admin get_current_user_invalid
  by (simp add: init_def)

section \<open>The single prediction and the documented bounds\<close>

text \<open>
  Claim C8. \<^verbatim>\<open>predict\<close> hands its arguments to the model as they are: a GRE score of 500
  is answered 200 with a prediction, where \<^verbatim>\<open>batch_submit\<close> answers 400 for the same
  record.
\<close>

theorem predict_ignores_bounds:
  "predict demo_service 500 110 3 3.5 3 8.5 1 = Inr (Response 200 (PredictionBody 1.087))
   \<and> batch_submit (jobs init) ''job-1'' 0 [out_of_bounds_input]
     = (Response 400 (ErrorBody ''gre_score''), jobs init, None)"
  by (simp add: predict_def demo_service_def demo_model_def sk_predict_def dot_def and_then_def
      batch_submit_def out_of_bounds_input_def AdmissionInput_init_def Field_def)

text \<open>
  Claim C9. \<^verbatim>\<open>predict\<close> returns what the model computes: for the input with every field
  at its upper bound the concrete service answers 200 with 1.0366. The batch path builds an
  \<^verbatim>\<open>AdmissionOutput\<close> of the same value, which raises, and the job fails.
\<close>

theorem predict_returns_unvalidated:
  "predict demo_service 340 120 5 5 5 10 1 = Inr (Response 200 (PredictionBody 1.0366))
   \<and> compute_results demo_service [top_admission] = Inl (ValidationError ''chance_of_admit'')"
  by (simp add: predict_def demo_service_def demo_model_def sk_predict_def dot_def and_then_def
      compute_results_def features_of_def top_admission_def AdmissionOutput_init_def Field_def)


end
